theory Spec2Isabelle
  imports Main "HOL-Library.Word" "HOL-Library.Code_Target_Nat"
begin

unbundle bit_operations_syntax

section \<open>PN532 USB serial reader: \<^verbatim>\<open>pn532_scan.py\<close>\<close>

text \<open>
  The script talks to a PN532 contactless reader over a serial port. The serial port, the
  port enumeration, the clock and standard output are outside the program; they are
  modelled as an environment that answers every call, and the program's calls are recorded
  in a trace in the order they happen. Python exceptions are values: every call that can
  raise returns a sum whose left side is the exception.
\<close>

subsection \<open>Bytes, exceptions and Python's sequence operations\<close>

type_synonym byte = "8 word"

text \<open>
  \<open>PyException msg\<close> stands for any instance of Python's \<^verbatim>\<open>Exception\<close> (what
  \<^verbatim>\<open>except Exception\<close> catches), with its message; \<open>KeyboardInterrupt\<close> is not an
  \<^verbatim>\<open>Exception\<close> and passes through such a handler.
\<close>

datatype exn = PyException string | KeyboardInterrupt

text \<open>\<^verbatim>\<open>response[i]\<close> for \<open>i \<ge> 0\<close>: raises IndexError out of range.\<close>

definition py_getitem :: "byte list \<Rightarrow> nat \<Rightarrow> exn + byte" where
  "py_getitem xs i =
     (if i < length xs then Inr (xs ! i) else Inl (PyException ''index out of range''))"

text \<open>\<^verbatim>\<open>response[i:j]\<close> for \<open>0 \<le> i\<close>, \<open>0 \<le> j\<close>: never raises, both ends are clipped
  to the length.\<close>

definition py_slice :: "'a list \<Rightarrow> nat \<Rightarrow> nat \<Rightarrow> 'a list" where
  "py_slice xs i j = take (j - i) (drop i xs)"

text \<open>\<^verbatim>\<open>sep.join(parts)\<close>\<close>

fun join :: "string \<Rightarrow> string list \<Rightarrow> string" where
  "join sep [] = []"
| "join sep [s] = s"
| "join sep (s # r # rest) = s @ sep @ join sep (r # rest)"

subsection \<open>Number formatting of the f-strings\<close>

definition digit_char :: "nat \<Rightarrow> char" where
  "digit_char d = ''0123456789ABCDEF'' ! d"

fun digits_nat :: "nat \<Rightarrow> nat \<Rightarrow> string" where
  "digits_nat b n =
     (if b < 2 \<or> n < b then [digit_char n]
      else digits_nat b (n div b) @ [digit_char (n mod b)])"

declare digits_nat.simps [simp del]

text \<open>\<^verbatim>\<open>f'{i:02X}'\<close>: upper-case hexadecimal, padded with zeros to width 2; a minus sign
  counts in the width.\<close>

definition format_02X :: "int \<Rightarrow> string" where
  "format_02X i =
     (if i < 0 then CHR ''-'' # digits_nat 16 (nat (- i))
      else let s = digits_nat 16 (nat i) in replicate (2 - length s) CHR ''0'' @ s)"

text \<open>\<^verbatim>\<open>f'{i}'\<close>, that is \<^verbatim>\<open>str(i)\<close>\<close>

definition str_int :: "int \<Rightarrow> string" where
  "str_int i =
     (if i < 0 then CHR ''-'' # digits_nat 10 (nat (- i)) else digits_nat 10 (nat i))"

subsection \<open>The command frames\<close>

definition READ_UID_COMMAND :: "byte list" where
  "READ_UID_COMMAND =
     [0x00, 0x00, 0xFF,
      0x04, 0xFC,
      0xD4, 0x4A, 0x01, 0x00,
      0xE1,
      0x00]"

definition wake_cmd :: "byte list" where
  "wake_cmd = [0x55, 0x55, 0x00, 0x00, 0x00]"

definition firmware_cmd :: "byte list" where
  "firmware_cmd =
     [0x00, 0x00, 0xFF,
      0x02, 0xFE,
      0xD4, 0x02,
      0x2A, 0x00]"

subsection \<open>\<^verbatim>\<open>get_card_type\<close>\<close>

text \<open>The arguments are Python integers. In the first branch a UID length other than 4
  and 7 leaves the \<^verbatim>\<open>if\<close> without returning and reaches the last line.\<close>

definition unknown_card :: "int \<Rightarrow> int \<Rightarrow> string" where
  "unknown_card sak uid_length =
     ''Unknown (SAK: 0x'' @ format_02X sak @ '', UID Length: '' @ str_int uid_length @ '')''"

definition get_card_type :: "int \<Rightarrow> int \<Rightarrow> string" where
  "get_card_type sak uid_length =
     (if (sak AND 0x08) = 0x08 then
        (if uid_length = 4 then ''MIFARE Classic 1K''
         else if uid_length = 7 then ''MIFARE Classic 4K''
         else unknown_card sak uid_length)
      else if (sak AND 0x20) = 0x20 then ''MIFARE DESFire or SmartMX''
      else if sak = 0x00 then ''MIFARE Ultralight/NTAG''
      else if sak = 0x20 then ''MIFARE Plus''
      else unknown_card sak uid_length)"

subsection \<open>The outside world: calls, trace, environment\<close>

record port_info =
  device :: string
  description :: string

text \<open>
  One event per call that leaves the program. A serial object is named by a number (the
  length of the trace when it was opened, so the \<open>SerialOpen\<close> event sits at that
  position). Sleeps are in milliseconds.
\<close>

datatype event =
    Print string
  | Comports
  | SerialOpen string nat nat
  | ResetInputBuffer nat
  | Write nat "byte list"
  | Read nat nat
  | Close nat
  | Sleep nat

text \<open>
  The environment decides the outcome of each call from the trace so far and the call's
  arguments: \<open>None\<close> means the call returned, \<open>Some e\<close> that it raised \<open>e\<close>.
\<close>

record env =
  env_comports :: "event list \<Rightarrow> port_info list"
  env_open :: "event list \<Rightarrow> string \<Rightarrow> exn option"
  env_reset :: "event list \<Rightarrow> nat \<Rightarrow> exn option"
  env_write :: "event list \<Rightarrow> nat \<Rightarrow> byte list \<Rightarrow> exn option"
  env_read :: "event list \<Rightarrow> nat \<Rightarrow> nat \<Rightarrow> exn + byte list"
  env_close :: "event list \<Rightarrow> nat \<Rightarrow> exn option"
  env_sleep :: "event list \<Rightarrow> nat \<Rightarrow> exn option"

type_synonym 'a io = "event list \<Rightarrow> (exn + 'a) \<times> event list"

definition return_io :: "'a \<Rightarrow> 'a io" where
  "return_io x t = (Inr x, t)"

definition bind_io :: "'a io \<Rightarrow> ('a \<Rightarrow> 'b io) \<Rightarrow> 'b io" where
  "bind_io m f t = (case m t of (Inl e, t') \<Rightarrow> (Inl e, t') | (Inr x, t') \<Rightarrow> f x t')"

definition lift_io :: "exn + 'a \<Rightarrow> 'a io" where
  "lift_io r t = (r, t)"

definition unit_result :: "exn option \<Rightarrow> exn + unit" where
  "unit_result r = (case r of None \<Rightarrow> Inr () | Some e \<Rightarrow> Inl e)"

definition print :: "string \<Rightarrow> unit io" where
  "print s t = (Inr (), t @ [Print s])"

definition list_comports :: "env \<Rightarrow> port_info list io" where
  "list_comports w t = (Inr (env_comports w t), t @ [Comports])"

definition Serial :: "env \<Rightarrow> string \<Rightarrow> nat \<Rightarrow> nat \<Rightarrow> nat io" where
  "Serial w port baudrate timeout t =
     (case env_open w t port of
        None \<Rightarrow> (Inr (length t), t @ [SerialOpen port baudrate timeout])
      | Some e \<Rightarrow> (Inl e, t @ [SerialOpen port baudrate timeout]))"

definition ser_reset_input_buffer :: "env \<Rightarrow> nat \<Rightarrow> unit io" where
  "ser_reset_input_buffer w ser t = (unit_result (env_reset w t ser), t @ [ResetInputBuffer ser])"

definition ser_write :: "env \<Rightarrow> nat \<Rightarrow> byte list \<Rightarrow> unit io" where
  "ser_write w ser bs t = (unit_result (env_write w t ser bs), t @ [Write ser bs])"

definition ser_read :: "env \<Rightarrow> nat \<Rightarrow> nat \<Rightarrow> byte list io" where
  "ser_read w ser n t = (env_read w t ser n, t @ [Read ser n])"

definition ser_close :: "env \<Rightarrow> nat \<Rightarrow> unit io" where
  "ser_close w ser t = (unit_result (env_close w t ser), t @ [Close ser])"

definition time_sleep :: "env \<Rightarrow> nat \<Rightarrow> unit io" where
  "time_sleep w ms t = (unit_result (env_sleep w t ms), t @ [Sleep ms])"

subsection \<open>\<^verbatim>\<open>read_rfid_uid\<close>\<close>

text \<open>Lines 22 to 36: what is done with the bytes that \<^verbatim>\<open>ser.read(64)\<close> returned.\<close>

definition read_rfid_uid_parse :: "byte list \<Rightarrow> string option io" where
  "read_rfid_uid_parse response =
     (if length response < 20 then return_io None
      else
        bind_io (lift_io (py_getitem response 12)) (\<lambda>uid_len.
        let uid_bytes = py_slice response 13 (13 + unat uid_len);
            uid_str = join '' '' (map (\<lambda>b. format_02X (uint b)) uid_bytes)
        in
        bind_io
          (if length response \<ge> 12 then
             bind_io (lift_io (py_getitem response 11)) (\<lambda>sak.
             print (''Card type: '' @ get_card_type (uint sak) (uint uid_len)))
           else return_io ())
          (\<lambda>_. return_io (Some uid_str))))"

text \<open>Lines 17 to 36: the body of the \<^verbatim>\<open>try\<close>.\<close>

definition read_rfid_uid_try :: "env \<Rightarrow> nat \<Rightarrow> string option io" where
  "read_rfid_uid_try w ser =
     bind_io (ser_reset_input_buffer w ser) (\<lambda>_.
     bind_io (ser_write w ser READ_UID_COMMAND) (\<lambda>_.
     bind_io (time_sleep w 300) (\<lambda>_.
     bind_io (ser_read w ser 64) (\<lambda>response.
     read_rfid_uid_parse response))))"

definition read_rfid_uid :: "env \<Rightarrow> nat \<Rightarrow> string option io" where
  "read_rfid_uid w ser t =
     (case read_rfid_uid_try w ser t of
        (Inl (PyException msg), t') \<Rightarrow>
          bind_io (print (''Error reading UID: '' @ msg)) (\<lambda>_. return_io None) t'
      | r \<Rightarrow> r)"

subsection \<open>\<^verbatim>\<open>find_pn532_port\<close>\<close>

text \<open>Line 105, the test on the bytes that \<^verbatim>\<open>ser.read(20)\<close> returned; \<^verbatim>\<open>and\<close> evaluates
  its right operand only when the left one holds.\<close>

definition looks_like_pn532 :: "byte list \<Rightarrow> exn + bool" where
  "looks_like_pn532 response =
     (if length response \<ge> 10 then
        (case py_getitem response 5 of
           Inl e \<Rightarrow> Inl e
         | Inr b5 \<Rightarrow>
             if b5 = 0xD5 then
               (case py_getitem response 6 of
                  Inl e \<Rightarrow> Inl e
                | Inr b6 \<Rightarrow> Inr (b6 = 0x03))
             else Inr False)
      else Inr False)"

text \<open>Lines 107 to 109: \<open>(ic_version, fw_version, fw_revision)\<close>.\<close>

definition firmware_versions :: "byte list \<Rightarrow> exn + (byte \<times> byte \<times> byte)" where
  "firmware_versions response =
     (case py_getitem response 7 of
        Inl e \<Rightarrow> Inl e
      | Inr ic_version \<Rightarrow>
          (case py_getitem response 8 of
             Inl e \<Rightarrow> Inl e
           | Inr fw_version \<Rightarrow>
               (case py_getitem response 9 of
                  Inl e \<Rightarrow> Inl e
                | Inr fw_revision \<Rightarrow> Inr (ic_version, fw_version, fw_revision))))"

text \<open>Lines 82 to 114, the body of the \<^verbatim>\<open>try\<close> for one port: \<open>Some ser\<close> is
  \<^verbatim>\<open>return ser\<close>, \<open>None\<close> is reaching the end of the body.\<close>

definition try_port :: "env \<Rightarrow> port_info \<Rightarrow> nat option io" where
  "try_port w port_info =
     (let port = device port_info in
      bind_io (Serial w port 115200 1) (\<lambda>ser.
      bind_io (ser_reset_input_buffer w ser) (\<lambda>_.
      bind_io (ser_write w ser wake_cmd) (\<lambda>_.
      bind_io (time_sleep w 100) (\<lambda>_.
      bind_io (ser_write w ser firmware_cmd) (\<lambda>_.
      bind_io (time_sleep w 100) (\<lambda>_.
      bind_io (ser_read w ser 20) (\<lambda>response.
      bind_io (lift_io (looks_like_pn532 response)) (\<lambda>recognised.
      if recognised then
        bind_io (print (''PN532 found on '' @ port @ ''!'')) (\<lambda>_.
        bind_io (lift_io (firmware_versions response)) (\<lambda>(ic_version, fw_version, fw_revision).
        bind_io (print (''Firmware version: '' @ str_int (uint fw_version) @ ''.''
                          @ str_int (uint fw_revision))) (\<lambda>_.
        return_io (Some ser))))
      else
        bind_io (ser_close w ser) (\<lambda>_.
        bind_io (print (''No PN532 response on '' @ port)) (\<lambda>_.
        return_io None)))))))))))"

text \<open>Lines 76 to 117, the loop over the ports with its \<^verbatim>\<open>except Exception\<close>.\<close>

fun scan_ports :: "env \<Rightarrow> port_info list \<Rightarrow> nat option io" where
  "scan_ports w [] t = (Inr None, t)"
| "scan_ports w (port_info # rest) t =
     (case print (CHR 0x0A # ''Trying '' @ device port_info @ '' (''
                    @ description port_info @ '')...'') t of
        (Inl e, t0) \<Rightarrow> (Inl e, t0)
      | (Inr _, t0) \<Rightarrow>
          (case try_port w port_info t0 of
             (Inl (PyException msg), t1) \<Rightarrow>
               (case print (''Error on '' @ device port_info @ '': '' @ msg) t1 of
                  (Inl e, t2) \<Rightarrow> (Inl e, t2)
                | (Inr _, t2) \<Rightarrow> scan_ports w rest t2)
           | (Inl KeyboardInterrupt, t1) \<Rightarrow> (Inl KeyboardInterrupt, t1)
           | (Inr (Some ser), t1) \<Rightarrow> (Inr (Some ser), t1)
           | (Inr None, t1) \<Rightarrow> scan_ports w rest t1))"

text \<open>Lines 72 and 73, the numbered list of the ports.\<close>

fun print_ports :: "nat \<Rightarrow> port_info list \<Rightarrow> unit io" where
  "print_ports i [] t = (Inr (), t)"
| "print_ports i (port_info # rest) t =
     (case print (str_int (int i + 1) @ ''. '' @ device port_info @ '' - ''
                    @ description port_info) t of
        (Inl e, t0) \<Rightarrow> (Inl e, t0)
      | (Inr _, t0) \<Rightarrow> print_ports (Suc i) rest t0)"

definition find_pn532_port :: "env \<Rightarrow> nat option io" where
  "find_pn532_port w =
     bind_io (print ''Scanning for available serial ports...'') (\<lambda>_.
     bind_io (list_comports w) (\<lambda>available_ports.
     if available_ports = [] then
       bind_io (print ''No serial ports found.'') (\<lambda>_. return_io None)
     else
       bind_io (print (''Found '' @ str_int (int (length available_ports)) @ '' ports:'')) (\<lambda>_.
       bind_io (print_ports 0 available_ports) (\<lambda>_.
       bind_io (scan_ports w available_ports) (\<lambda>found.
       case found of
         Some ser \<Rightarrow> return_io (Some ser)
       | None \<Rightarrow>
           bind_io (print ''No PN532 device found on any port.'') (\<lambda>_. return_io None))))))"

subsection \<open>\<^verbatim>\<open>main\<close>\<close>

text \<open>\<^verbatim>\<open>if uid:\<close> holds for a string that is not empty; \<^verbatim>\<open>None\<close> and \<^verbatim>\<open>''\<close> are false.\<close>

definition truthy :: "string option \<Rightarrow> bool" where
  "truthy uid = (case uid of None \<Rightarrow> False | Some s \<Rightarrow> s \<noteq> [])"

definition py_str :: "string option \<Rightarrow> string" where
  "py_str uid = (case uid of None \<Rightarrow> ''None'' | Some s \<Rightarrow> s)"

text \<open>Lines 149 to 155, \<^verbatim>\<open>while True\<close>. The first argument bounds the number of
  rounds; \<open>None\<close> means that the loop is still running after that many rounds.\<close>

fun poll_loop :: "nat \<Rightarrow> env \<Rightarrow> nat \<Rightarrow> event list \<Rightarrow> ((exn + unit) \<times> event list) option" where
  "poll_loop 0 w ser t = None"
| "poll_loop (Suc n) w ser t =
     (case read_rfid_uid w ser t of
        (Inl e, t1) \<Rightarrow> Some (Inl e, t1)
      | (Inr uid, t1) \<Rightarrow>
          if truthy uid then
            Some (bind_io (print (''Card detected! UID: '' @ py_str uid)) (\<lambda>_.
                  print ''Successfully read card. Exiting.'') t1)
          else
            (case time_sleep w 500 t1 of
               (Inl e, t2) \<Rightarrow> Some (Inl e, t2)
             | (Inr _, t2) \<Rightarrow> poll_loop n w ser t2))"

text \<open>Lines 147 to 159: the loop inside \<^verbatim>\<open>try\<close>, \<^verbatim>\<open>except KeyboardInterrupt\<close>,
  and \<^verbatim>\<open>finally: ser.close()\<close>, which runs on every way out and whose own exception
  replaces the pending one.\<close>

definition main_poll :: "nat \<Rightarrow> env \<Rightarrow> nat \<Rightarrow> event list \<Rightarrow> ((exn + unit) \<times> event list) option" where
  "main_poll n w ser t =
     (case print ''Scanning for a card... (will exit after successful read)'' t of
        (Inl e, t0) \<Rightarrow> Some (Inl e, t0)
      | (Inr _, t0) \<Rightarrow>
          (case poll_loop n w ser t0 of
             None \<Rightarrow> None
           | Some (r, t1) \<Rightarrow>
               (case (case r of
                        Inl KeyboardInterrupt \<Rightarrow> print (CHR 0x0A # ''Exiting.'') t1
                      | _ \<Rightarrow> (r, t1)) of
                  (r', t2) \<Rightarrow>
                    (case ser_close w ser t2 of
                       (Inl e, t3) \<Rightarrow> Some (Inl e, t3)
                     | (Inr _, t3) \<Rightarrow> Some (r', t3)))))"

text \<open>Lines 127 to 135: the port given on the command line, if any.\<close>

definition main_open_arg :: "env \<Rightarrow> string list \<Rightarrow> nat option io" where
  "main_open_arg w argv t =
     (if length argv \<ge> 2 then
        (let port = argv ! 1 in
         case bind_io (print (''Trying to connect to specified port '' @ port @ ''...'')) (\<lambda>_.
              bind_io (Serial w port 115200 1) (\<lambda>ser.
              bind_io (print (''Connected to '' @ port @ ''.'')) (\<lambda>_.
              return_io (Some ser)))) t of
           (Inl (PyException msg), t') \<Rightarrow>
             bind_io (print (''Error opening serial port '' @ port @ '': '' @ msg)) (\<lambda>_.
             bind_io (print ''Will try to auto-detect PN532 device...'') (\<lambda>_.
             return_io None)) t'
         | r \<Rightarrow> r)
      else (Inr None, t))"

datatype outcome = Returned | SystemExit int | Uncaught exn

definition main :: "nat \<Rightarrow> env \<Rightarrow> string list \<Rightarrow> event list \<Rightarrow> (outcome \<times> event list) option" where
  "main n w argv t =
     (case bind_io (main_open_arg w argv) (\<lambda>ser.
           case ser of Some s \<Rightarrow> return_io (Some s) | None \<Rightarrow> find_pn532_port w) t of
        (Inl e, t1) \<Rightarrow> Some (Uncaught e, t1)
      | (Inr None, t1) \<Rightarrow>
          (case bind_io (print (CHR 0x0A #
                   ''Could not find PN532 device. Please check connections and try again.'')) (\<lambda>_.
                print ''You can also specify the port directly: python pn532_scan.py COM5'') t1 of
             (_, t2) \<Rightarrow> Some (SystemExit 1, t2))
      | (Inr (Some ser), t1) \<Rightarrow>
          (case print (''Connected to PN532. Waiting for RFID tags...'' @ [CHR 0x0A]
                       @ ''Press Ctrl+C to exit.'' @ [CHR 0x0A]) t1 of
             (_, t2) \<Rightarrow>
               (case main_poll n w ser t2 of
                  None \<Rightarrow> None
                | Some (Inl e, t3) \<Rightarrow> Some (Uncaught e, t3)
                | Some (Inr _, t3) \<Rightarrow> Some (Returned, t3))))"

subsection \<open>Frames and environments used as examples\<close>

text \<open>A 25-byte target response: SAK \<open>08\<close> at offset 11, UID length 4 at offset 12, the UID
  \<open>DE AD BE EF\<close> from offset 13.\<close>

definition card_frame :: "byte list" where
  "card_frame = replicate 11 0 @ [0x08, 0x04, 0xDE, 0xAD, 0xBE, 0xEF] @ replicate 8 0"

text \<open>Two 20-byte responses with the same bytes from offset 13 on and SAK \<open>00\<close>: the first
  announces 10 UID bytes, of which only 7 were received; the second announces the 7 that
  are there.\<close>

definition overrun_frame :: "byte list" where
  "overrun_frame = replicate 11 0 @ [0x00, 0x0A, 1, 2, 3, 4, 5, 6, 7]"

definition exact_frame :: "byte list" where
  "exact_frame = replicate 11 0 @ [0x00, 0x07, 1, 2, 3, 4, 5, 6, 7]"

text \<open>A 20-byte response that announces a UID of length 0.\<close>

definition empty_uid_frame :: "byte list" where
  "empty_uid_frame = replicate 20 0"

text \<open>The firmware response \<open>00 00 FF 02 FE D5 03 32 01 06\<close>.\<close>

definition firmware_frame :: "byte list" where
  "firmware_frame = [0x00, 0x00, 0xFF, 0x02, 0xFE, 0xD5, 0x03, 0x32, 0x01, 0x06]"

text \<open>An environment in which every call returns: the ports are \<open>ports\<close>, every read
  delivers \<open>raw\<close>.\<close>

definition calm_env :: "port_info list \<Rightarrow> byte list \<Rightarrow> env" where
  "calm_env ports raw =
     \<lparr>env_comports = (\<lambda>_. ports),
      env_open = (\<lambda>_ _. None),
      env_reset = (\<lambda>_ _. None),
      env_write = (\<lambda>_ _ _. None),
      env_read = (\<lambda>_ _ _. Inr raw),
      env_close = (\<lambda>_ _. None),
      env_sleep = (\<lambda>_ _. None)\<rparr>"

definition two_ports :: "port_info list" where
  "two_ports = [\<lparr>device = ''COM1'', description = ''A''\<rparr>,
                \<lparr>device = ''COM2'', description = ''B''\<rparr>]"

text \<open>Two ports that open, on which every write raises.\<close>

definition write_fails_env :: env where
  "write_fails_env =
     (calm_env two_ports [])\<lparr>env_write := (\<lambda>_ _ _. Some (PyException ''write failed''))\<rparr>"

text \<open>A reader on which writes raise until the program has slept one poll interval, and
  which then answers with \<open>card_frame\<close>.\<close>

definition flaky_env :: env where
  "flaky_env =
     (calm_env [] card_frame)\<lparr>env_write :=
        (\<lambda>t _ _. if Sleep 500 \<in> set t then None else Some (PyException ''write failed''))\<rparr>"

text \<open>The reader behind \<open>ser\<close> answers every poll with \<open>raw\<close>, and nothing raises.\<close>

definition always_answers :: "env \<Rightarrow> nat \<Rightarrow> byte list \<Rightarrow> bool" where
  "always_answers w ser raw \<longleftrightarrow>
     (\<forall>t. env_reset w t ser = None \<and> env_write w t ser READ_UID_COMMAND = None \<and>
          env_sleep w t 300 = None \<and> env_sleep w t 500 = None \<and>
          env_read w t ser 64 = Inr raw)"

section \<open>Properties\<close>

subsection \<open>Auxiliary facts\<close>

lemmas io_defs = bind_io_def return_io_def lift_io_def print_def unit_result_def
  Serial_def ser_reset_input_buffer_def ser_write_def ser_read_def ser_close_def
  time_sleep_def list_comports_def

text \<open>The elements of a list at the positions of an interval are a \<open>take\<close> of a \<open>drop\<close>.\<close>

lemma nths_interval: "nths xs {i..<j} = take (j - i) (drop i xs)"
proof -
  have "(+) i ` {..<j - i} = {i..<j}"
  proof (rule set_eqI)
    fix k
    show "k \<in> (+) i ` {..<j - i} \<longleftrightarrow> k \<in> {i..<j}"
    proof
      assume "k \<in> (+) i ` {..<j - i}"
      then show "k \<in> {i..<j}" by auto
    next
      assume "k \<in> {i..<j}"
      then have "k = i + (k - i)" and "k - i < j - i" by auto
      then show "k \<in> (+) i ` {..<j - i}" by blast
    qed
  qed
  moreover have "nths (drop i xs) {..<j - i} = nths xs ((+) i ` {..<j - i})"
    by (rule nths_drop)
  ultimately show ?thesis by simp
qed

lemma length_py_slice: "length (py_slice xs i j) = min (j - i) (length xs - i)"
  by (simp add: py_slice_def)

lemma format_02X_byte_examples:
  "format_02X 0xDE = ''DE''" "format_02X 0xAD = ''AD''"
  "format_02X 0xBE = ''BE''" "format_02X 0xEF = ''EF''"
  "format_02X 1 = ''01''" "format_02X 2 = ''02''"
  "format_02X 3 = ''03''" "format_02X 4 = ''04''"
  "format_02X 5 = ''05''" "format_02X 6 = ''06''"
  "format_02X 7 = ''07''"
  by (simp_all add: format_02X_def digits_nat.simps digit_char_def)

lemma read_rfid_uid_parse_short:
  "length raw < 20 \<Longrightarrow> read_rfid_uid_parse raw t = (Inr None, t)"
  by (simp add: read_rfid_uid_parse_def return_io_def)

lemma read_rfid_uid_parse_long:
  "20 \<le> length raw \<Longrightarrow>
   read_rfid_uid_parse raw t =
     (Inr (Some (join '' '' (map (\<lambda>b. format_02X (uint b)) (take (unat (raw ! 12)) (drop 13 raw))))),
      t @ [Print (''Card type: '' @ get_card_type (uint (raw ! 11)) (uint (raw ! 12)))])"
  by (simp add: read_rfid_uid_parse_def return_io_def bind_io_def lift_io_def py_getitem_def
      print_def py_slice_def Let_def)

text \<open>When the four calls on the port return, the bytes read go to the parsing step.\<close>

lemma read_rfid_uid_try_received:
  assumes "env_reset w t ser = None"
    and "env_write w (t @ [ResetInputBuffer ser]) ser READ_UID_COMMAND = None"
    and "env_sleep w (t @ [ResetInputBuffer ser, Write ser READ_UID_COMMAND]) 300 = None"
    and "env_read w (t @ [ResetInputBuffer ser, Write ser READ_UID_COMMAND, Sleep 300]) ser 64 = Inr raw"
  shows "read_rfid_uid_try w ser t =
     read_rfid_uid_parse raw (t @ [ResetInputBuffer ser, Write ser READ_UID_COMMAND, Sleep 300, Read ser 64])"
  using assms
  by (simp add: read_rfid_uid_try_def bind_io_def ser_reset_input_buffer_def ser_write_def
      time_sleep_def ser_read_def unit_result_def)

lemma read_rfid_uid_received:
  assumes "always_answers w ser raw"
  shows "read_rfid_uid w ser t =
     read_rfid_uid_parse raw (t @ [ResetInputBuffer ser, Write ser READ_UID_COMMAND, Sleep 300, Read ser 64])"
proof -
  have "read_rfid_uid_try w ser t =
     read_rfid_uid_parse raw (t @ [ResetInputBuffer ser, Write ser READ_UID_COMMAND, Sleep 300, Read ser 64])"
    using assms by (intro read_rfid_uid_try_received) (simp_all add: always_answers_def)
  moreover have "\<exists>r t'. read_rfid_uid_parse raw (t @ [ResetInputBuffer ser, Write ser READ_UID_COMMAND, Sleep 300, Read ser 64]) = (Inr r, t')"
    by (cases "length raw < 20") (simp_all add: read_rfid_uid_parse_short read_rfid_uid_parse_long)
  ultimately show ?thesis
    by (auto simp add: read_rfid_uid_def)
qed

text \<open>An \<^verbatim>\<open>Exception\<close> raised inside the \<^verbatim>\<open>try\<close> is printed and turned into \<^verbatim>\<open>None\<close>.\<close>

lemma read_rfid_uid_caught:
  "read_rfid_uid_try w ser t = (Inl (PyException msg), t1) \<Longrightarrow>
   read_rfid_uid w ser t = (Inr None, t1 @ [Print (''Error reading UID: '' @ msg)])"
  by (simp add: read_rfid_uid_def io_defs)

lemma read_rfid_uid_no_exception:
  "fst (read_rfid_uid w ser t) \<noteq> Inl (PyException msg)"
  by (auto simp add: read_rfid_uid_def bind_io_def print_def return_io_def
      split: prod.splits sum.splits exn.splits)

lemma card_frame_facts:
  "length card_frame = 25" "card_frame ! 11 = 0x08" "card_frame ! 12 = 0x04"
  "drop 13 card_frame = [0xDE, 0xAD, 0xBE, 0xEF] @ replicate 8 0"
  by (simp_all add: card_frame_def nth_append)

lemma card_frame_parse:
  "read_rfid_uid_parse card_frame t =
     (Inr (Some ''DE AD BE EF''), t @ [Print ''Card type: MIFARE Classic 1K''])"
  by (simp add: read_rfid_uid_parse_long card_frame_facts format_02X_byte_examples get_card_type_def)

lemma overrun_frame_facts:
  "length overrun_frame = 20" "overrun_frame ! 11 = 0" "overrun_frame ! 12 = 0x0A"
  "drop 13 overrun_frame = [1, 2, 3, 4, 5, 6, 7]"
  by (simp_all add: overrun_frame_def nth_append)

lemma exact_frame_facts:
  "length exact_frame = 20" "exact_frame ! 11 = 0" "exact_frame ! 12 = 0x07"
  "drop 13 exact_frame = [1, 2, 3, 4, 5, 6, 7]"
  by (simp_all add: exact_frame_def nth_append)

lemma overrun_frame_parse:
  "read_rfid_uid_parse overrun_frame t =
     (Inr (Some ''01 02 03 04 05 06 07''), t @ [Print ''Card type: MIFARE Ultralight/NTAG''])"
  by (simp add: read_rfid_uid_parse_long overrun_frame_facts format_02X_byte_examples
      get_card_type_def)

lemma exact_frame_parse:
  "read_rfid_uid_parse exact_frame t =
     (Inr (Some ''01 02 03 04 05 06 07''), t @ [Print ''Card type: MIFARE Ultralight/NTAG''])"
  by (simp add: read_rfid_uid_parse_long exact_frame_facts format_02X_byte_examples
      get_card_type_def)

subsection \<open>The command frames\<close>

text \<open>
  Claim C8. The read-UID command is the 11 bytes \<open>00 00 FF 04 FC D4 4A 01 00 E1 00\<close>, the
  wake preamble the 5 bytes \<open>55 55 00 00 00\<close>, and the firmware query the 9 bytes
  \<open>00 00 FF 02 FE D4 02 2A 00\<close>.
\<close>

theorem command_frames:
  "READ_UID_COMMAND = [0x00, 0x00, 0xFF, 0x04, 0xFC, 0xD4, 0x4A, 0x01, 0x00, 0xE1, 0x00] \<and>
   length READ_UID_COMMAND = 11 \<and>
   wake_cmd = [0x55, 0x55, 0x00, 0x00, 0x00] \<and>
   length wake_cmd = 5 \<and>
   firmware_cmd = [0x00, 0x00, 0xFF, 0x02, 0xFE, 0xD4, 0x02, 0x2A, 0x00] \<and>
   length firmware_cmd = 9"
  by (simp add: READ_UID_COMMAND_def wake_cmd_def firmware_cmd_def)

subsection \<open>The card type\<close>

lemma unknown_card_not_plus: "unknown_card sak n \<noteq> ''MIFARE Plus''"
  by (simp add: unknown_card_def)

lemma get_card_type_not_plus: "get_card_type sak n \<noteq> ''MIFARE Plus''"
  by (auto simp add: get_card_type_def unknown_card_not_plus)

text \<open>
  Claim C4. \<^verbatim>\<open>get_card_type\<close> has a value for every SAK and every UID length:
  SAK \<open>08\<close> with length 4 is ``MIFARE Classic 1K'' and with length 7 ``MIFARE Classic 4K'';
  SAK \<open>20\<close> is ``MIFARE DESFire or SmartMX'' for every length, and no input at all gives
  ``MIFARE Plus''; SAK \<open>00\<close> is ``MIFARE Ultralight/NTAG'' for every length; SAK \<open>99\<close> with
  length 3 gives the fallback label, which shows \<open>0x99\<close> and \<open>3\<close>; and every SAK with
  bit \<open>08\<close> set and a length other than 4 and 7 gives the fallback label.
\<close>

theorem get_card_type_values:
  "get_card_type 0x08 4 = ''MIFARE Classic 1K'' \<and>
   get_card_type 0x08 7 = ''MIFARE Classic 4K'' \<and>
   get_card_type 0x20 n = ''MIFARE DESFire or SmartMX'' \<and>
   get_card_type sak n \<noteq> ''MIFARE Plus'' \<and>
   get_card_type 0x00 n = ''MIFARE Ultralight/NTAG'' \<and>
   get_card_type 0x99 3 = ''Unknown (SAK: 0x99, UID Length: 3)'' \<and>
   (sak AND 0x08 = 0x08 \<and> n \<noteq> 4 \<and> n \<noteq> 7 \<longrightarrow>
      get_card_type sak n =
        ''Unknown (SAK: 0x'' @ format_02X sak @ '', UID Length: '' @ str_int n @ '')'')"
  by (simp add: get_card_type_not_plus)
    (simp add: get_card_type_def unknown_card_def format_02X_def str_int_def
      digits_nat.simps digit_char_def)

theorem get_card_type_values_witness:
  "(0x0F :: int) AND 0x08 = 0x08 \<and> (5 :: int) \<noteq> 4 \<and> (5 :: int) \<noteq> 7 \<and>
   get_card_type 0x0F 5 = ''Unknown (SAK: 0x0F, UID Length: 5)''"
  using get_card_type_values [of 5 "0x0F"]
  by (simp add: format_02X_def str_int_def digits_nat.simps digit_char_def)

subsection \<open>The parsing step of \<^verbatim>\<open>read_rfid_uid\<close>\<close>

text \<open>
  Claim C1. Whatever bytes were received, the parsing step of \<^verbatim>\<open>read_rfid_uid\<close> returns
  \<^verbatim>\<open>None\<close> without printing anything when fewer than 20 bytes came in. With 20 bytes or
  more it returns a string: the SAK is the byte at offset 11 and the UID length the byte at
  offset 12 (both go into the printed card type), and the UID is made of the bytes of the
  response whose offsets lie in \<open>[13, 13 + uid_len)\<close>, written as two hexadecimal digits
  each and joined by spaces.
\<close>

theorem parse_target_response:
  "(length raw < 20 \<longrightarrow> read_rfid_uid_parse raw t = (Inr None, t)) \<and>
   (20 \<le> length raw \<longrightarrow>
      read_rfid_uid_parse raw t =
        (Inr (Some (join '' '' (map (\<lambda>b. format_02X (uint b))
                                  (nths raw {13 ..< 13 + unat (raw ! 12)})))),
         t @ [Print (''Card type: '' @ get_card_type (uint (raw ! 11)) (uint (raw ! 12)))]))"
  by (simp add: read_rfid_uid_parse_short read_rfid_uid_parse_long nths_interval)

theorem parse_target_response_witness:
  "length ([] :: byte list) < 20 \<and> read_rfid_uid_parse [] [] = (Inr None, []) \<and>
   20 \<le> length card_frame \<and>
   nths card_frame {13 ..< 13 + unat (card_frame ! 12)} = [0xDE, 0xAD, 0xBE, 0xEF] \<and>
   read_rfid_uid_parse card_frame [] =
     (Inr (Some ''DE AD BE EF''), [Print ''Card type: MIFARE Classic 1K''])"
  using parse_target_response [of "[]" "[]"] parse_target_response [of card_frame "[]"]
  by (simp add: card_frame_facts nths_interval format_02X_byte_examples get_card_type_def)

text \<open>
  Against claim C2 as it is written. \<open>overrun_frame\<close> has 20 bytes and announces 10 UID
  bytes, three more than it holds; \<open>exact_frame\<close> announces the 7 bytes it holds. The
  parsing step gives the same return value and the same output for both: the shortened
  UID comes back as an ordinary result, and nothing tells the caller that the frame was
  malformed.
\<close>

theorem overrun_not_distinct_counterexample:
  "20 \<le> length overrun_frame \<and>
   length overrun_frame < 13 + unat (overrun_frame ! 12) \<and>
   13 + unat (exact_frame ! 12) \<le> length exact_frame \<and>
   read_rfid_uid_parse overrun_frame [] =
     (Inr (Some ''01 02 03 04 05 06 07''), [Print ''Card type: MIFARE Ultralight/NTAG'']) \<and>
   read_rfid_uid_parse overrun_frame [] = read_rfid_uid_parse exact_frame []"
  by (simp add: overrun_frame_parse exact_frame_parse overrun_frame_facts exact_frame_facts)

text \<open>
  Claim C2, amended. When at least 20 bytes were received and the UID length at offset 12
  reaches past the end of the buffer, the parsing step raises nothing and reads nothing out
  of bounds: it returns, as an ordinary result, the \<open>len(raw) - 13\<close> bytes that lie between
  offset 13 and the end of the buffer, and prints the card type computed from the announced
  length.
\<close>

theorem overrun_clipped:
  "20 \<le> length raw \<Longrightarrow> length raw < 13 + unat (raw ! 12) \<Longrightarrow>
   read_rfid_uid_parse raw t =
     (Inr (Some (join '' '' (map (\<lambda>b. format_02X (uint b)) (drop 13 raw)))),
      t @ [Print (''Card type: '' @ get_card_type (uint (raw ! 11)) (uint (raw ! 12)))]) \<and>
   length (drop 13 raw) = length raw - 13"
  by (simp add: read_rfid_uid_parse_long)

theorem overrun_clipped_witness:
  "20 \<le> length overrun_frame \<and> length overrun_frame < 13 + unat (overrun_frame ! 12) \<and>
   read_rfid_uid_parse overrun_frame [] =
     (Inr (Some ''01 02 03 04 05 06 07''), [Print ''Card type: MIFARE Ultralight/NTAG''])"
  using overrun_clipped [of overrun_frame "[]"]
  by (simp add: overrun_frame_facts format_02X_byte_examples get_card_type_def)

text \<open>
  Claim C10. For every byte sequence received, the parsing step ends without an exception:
  the two indexed reads happen only behind the length test and succeed there, and the slice
  for the UID has \<open>min uid_len (len(raw) - 13)\<close> elements, so it shortens instead of
  reading past the end. The result is \<^verbatim>\<open>None\<close> or a string. For the whole function, no
  \<^verbatim>\<open>Exception\<close> ever leaves \<^verbatim>\<open>read_rfid_uid\<close>, whatever the port does.
\<close>

theorem read_rfid_uid_total:
  "read_rfid_uid_parse raw t =
     (if length raw < 20 then (Inr None, t)
      else (Inr (Some (join '' '' (map (\<lambda>b. format_02X (uint b))
                                     (py_slice raw 13 (13 + unat (raw ! 12)))))),
            t @ [Print (''Card type: '' @ get_card_type (uint (raw ! 11)) (uint (raw ! 12)))])) \<and>
   length (py_slice raw 13 (13 + n)) = min n (length raw - 13) \<and>
   fst (read_rfid_uid w ser t) \<noteq> Inl (PyException msg)"
  by (simp add: read_rfid_uid_parse_short read_rfid_uid_parse_long length_py_slice
      read_rfid_uid_no_exception py_slice_def)

subsection \<open>The firmware response\<close>

lemma looks_like_pn532_eq:
  "looks_like_pn532 raw = Inr (10 \<le> length raw \<and> raw ! 5 = 0xD5 \<and> raw ! 6 = 0x03)"
  by (simp add: looks_like_pn532_def py_getitem_def)

lemma firmware_versions_eq:
  "10 \<le> length raw \<Longrightarrow> firmware_versions raw = Inr (raw ! 7, raw ! 8, raw ! 9)"
  by (simp add: firmware_versions_def py_getitem_def)

text \<open>
  Claim C3. The test on the probe's response never raises, and it fails exactly when the
  response has fewer than 10 bytes or its bytes at offsets 5 and 6 are not \<open>D5\<close> and
  \<open>03\<close>. When it succeeds, the three version values are the bytes at offsets 7, 8 and 9;
  for \<open>00 00 FF 02 FE D5 03 32 01 06\<close> they are \<open>32\<close>, \<open>01\<close> and \<open>06\<close>.
\<close>

theorem parse_firmware_response:
  "(looks_like_pn532 raw = Inr False \<longleftrightarrow>
      length raw < 10 \<or> raw ! 5 \<noteq> 0xD5 \<or> raw ! 6 \<noteq> 0x03) \<and>
   (looks_like_pn532 raw = Inr False \<or> looks_like_pn532 raw = Inr True) \<and>
   (looks_like_pn532 raw = Inr True \<longrightarrow>
      firmware_versions raw = Inr (raw ! 7, raw ! 8, raw ! 9)) \<and>
   looks_like_pn532 firmware_frame = Inr True \<and>
   firmware_versions firmware_frame = Inr (0x32, 0x01, 0x06)"
  by (auto simp add: looks_like_pn532_eq firmware_versions_eq firmware_frame_def)

theorem parse_firmware_response_witness:
  "looks_like_pn532 firmware_frame = Inr True \<and>
   firmware_versions firmware_frame =
     Inr (firmware_frame ! 7, firmware_frame ! 8, firmware_frame ! 9) \<and>
   firmware_frame ! 7 = 0x32 \<and> firmware_frame ! 8 = 0x01 \<and> firmware_frame ! 9 = 0x06 \<and>
   length [0x00, 0x00, 0xFF, 0x02, 0xFE, 0xD5, 0x03 :: byte] < 10 \<and>
   looks_like_pn532 [0x00, 0x00, 0xFF, 0x02, 0xFE, 0xD5, 0x03] = Inr False"
  using parse_firmware_response [of firmware_frame]
    parse_firmware_response [of "[0x00, 0x00, 0xFF, 0x02, 0xFE, 0xD5, 0x03]"]
  by (simp add: firmware_frame_def)

text \<open>
  One port on which every call returns and the read delivers \<open>raw\<close>: a recognised response
  ends the probe with the open port and the printed firmware version; any other response,
  the empty one of a timed-out read included, ends it with the port closed.
\<close>

lemma try_port_calm:
  "try_port (calm_env ports raw) p t =
     (if 10 \<le> length raw \<and> raw ! 5 = 0xD5 \<and> raw ! 6 = 0x03 then
        (Inr (Some (length t)),
         t @ [SerialOpen (device p) 115200 1, ResetInputBuffer (length t),
              Write (length t) wake_cmd, Sleep 100, Write (length t) firmware_cmd, Sleep 100,
              Read (length t) 20, Print (''PN532 found on '' @ device p @ ''!''),
              Print (''Firmware version: '' @ str_int (uint (raw ! 8)) @ ''.''
                       @ str_int (uint (raw ! 9)))])
      else
        (Inr None,
         t @ [SerialOpen (device p) 115200 1, ResetInputBuffer (length t),
              Write (length t) wake_cmd, Sleep 100, Write (length t) firmware_cmd, Sleep 100,
              Read (length t) 20, Close (length t),
              Print (''No PN532 response on '' @ device p)]))"
  by (simp add: try_port_def Let_def calm_env_def io_defs looks_like_pn532_eq firmware_versions_eq)

subsection \<open>Scanning the ports\<close>

lemma find_pn532_port_no_ports:
  "env_comports w (t @ [Print ''Scanning for available serial ports...'']) = [] \<Longrightarrow>
   find_pn532_port w t =
     (Inr None,
      t @ [Print ''Scanning for available serial ports...'', Comports,
           Print ''No serial ports found.''])"
  by (simp add: find_pn532_port_def io_defs)

text \<open>
  Claim C7. When the enumeration returns no port, \<^verbatim>\<open>find_pn532_port\<close> prints
  ``No serial ports found.'' and returns \<^verbatim>\<open>None\<close> at once: between its start and its
  return it asks for the ports and prints two lines, and opens nothing.
\<close>

theorem empty_port_list:
  "env_comports w (t @ [Print ''Scanning for available serial ports...'']) = [] \<Longrightarrow>
   find_pn532_port w t =
     (Inr None,
      t @ [Print ''Scanning for available serial ports...'', Comports,
           Print ''No serial ports found.''])"
  by (rule find_pn532_port_no_ports)

theorem empty_port_list_witness:
  "env_comports (calm_env [] []) [Print ''Scanning for available serial ports...''] = [] \<and>
   find_pn532_port (calm_env [] []) [] =
     (Inr None,
      [Print ''Scanning for available serial ports...'', Comports,
       Print ''No serial ports found.''])"
  using empty_port_list [of "calm_env [] []" "[]"]
  by (simp add: calm_env_def)

text \<open>The whole program in that situation, started without a port argument.\<close>

lemma main_no_ports:
  assumes "length argv < 2"
    and "env_comports w (t @ [Print ''Scanning for available serial ports...'']) = []"
  shows "main n w argv t =
     Some (SystemExit 1,
       t @ [Print ''Scanning for available serial ports...'', Comports,
            Print ''No serial ports found.'',
            Print (CHR 0x0A #
              ''Could not find PN532 device. Please check connections and try again.''),
            Print ''You can also specify the port directly: python pn532_scan.py COM5''])"
  using assms(1)
  by (simp add: main_def main_open_arg_def find_pn532_port_no_ports [OF assms(2)]
      bind_io_def print_def)

lemma try_port_write_fails:
  "try_port write_fails_env p t =
     (Inl (PyException ''write failed''),
      t @ [SerialOpen (device p) 115200 1, ResetInputBuffer (length t),
           Write (length t) wake_cmd])"
  by (simp add: try_port_def Let_def write_fails_env_def calm_env_def io_defs)

lemma scan_write_fails:
  "scan_ports write_fails_env two_ports t =
     (Inr None,
      t @ [Print (CHR 0x0A # ''Trying COM1 (A)...''),
           SerialOpen ''COM1'' 115200 1, ResetInputBuffer (Suc (length t)),
           Write (Suc (length t)) wake_cmd,
           Print ''Error on COM1: write failed'',
           Print (CHR 0x0A # ''Trying COM2 (B)...''),
           SerialOpen ''COM2'' 115200 1, ResetInputBuffer (length t + 6),
           Write (length t + 6) wake_cmd,
           Print ''Error on COM2: write failed''])"
  by (simp add: two_ports_def try_port_write_fails print_def)

text \<open>
  Claim C5, at an input where the program does not do what the claim says. Two ports are
  found and both open; on both the first write raises. The scan opens COM1 (serial object
  6), catches the exception, and goes on to open COM2: no \<open>Close 6\<close> comes before the
  second \<open>SerialOpen\<close>, nor anywhere in the run.
\<close>

theorem scan_leaves_port_open:
  "env_comports write_fails_env [Print ''Scanning for available serial ports...''] = two_ports \<and>
   find_pn532_port write_fails_env [] =
     (Inr None,
      [Print ''Scanning for available serial ports...'', Comports,
       Print ''Found 2 ports:'', Print ''1. COM1 - A'', Print ''2. COM2 - B'',
       Print (CHR 0x0A # ''Trying COM1 (A)...''),
       SerialOpen ''COM1'' 115200 1, ResetInputBuffer 6, Write 6 wake_cmd,
       Print ''Error on COM1: write failed'',
       Print (CHR 0x0A # ''Trying COM2 (B)...''),
       SerialOpen ''COM2'' 115200 1, ResetInputBuffer 11, Write 11 wake_cmd,
       Print ''Error on COM2: write failed'',
       Print ''No PN532 device found on any port.'']) \<and>
   Close 6 \<notin> set (snd (find_pn532_port write_fails_env []))"
proof -
  have ports: "env_comports write_fails_env t = two_ports" for t
    by (simp add: write_fails_env_def calm_env_def)
  have listing: "print_ports 0 two_ports t =
      (Inr (), t @ [Print ''1. COM1 - A'', Print ''2. COM2 - B''])" for t
    by (simp add: two_ports_def print_def str_int_def digits_nat.simps digit_char_def)
  have nonempty: "two_ports \<noteq> []" "length two_ports = 2"
    by (simp_all add: two_ports_def)
  have run: "find_pn532_port write_fails_env [] =
     (Inr None,
      [Print ''Scanning for available serial ports...'', Comports,
       Print ''Found 2 ports:'', Print ''1. COM1 - A'', Print ''2. COM2 - B'',
       Print (CHR 0x0A # ''Trying COM1 (A)...''),
       SerialOpen ''COM1'' 115200 1, ResetInputBuffer 6, Write 6 wake_cmd,
       Print ''Error on COM1: write failed'',
       Print (CHR 0x0A # ''Trying COM2 (B)...''),
       SerialOpen ''COM2'' 115200 1, ResetInputBuffer 11, Write 11 wake_cmd,
       Print ''Error on COM2: write failed'',
       Print ''No PN532 device found on any port.''])"
    by (simp add: find_pn532_port_def bind_io_def return_io_def print_def list_comports_def
        ports listing nonempty scan_write_fails str_int_def digits_nat.simps digit_char_def)
  show ?thesis
    by (simp add: ports run)
qed

subsection \<open>The poll loop\<close>

lemma poll_round_caught:
  "read_rfid_uid_try w ser t = (Inl (PyException msg), t1) \<Longrightarrow>
   poll_loop (Suc n) w ser t =
     (case env_sleep w (t1 @ [Print (''Error reading UID: '' @ msg)]) 500 of
        None \<Rightarrow> poll_loop n w ser (t1 @ [Print (''Error reading UID: '' @ msg), Sleep 500])
      | Some e \<Rightarrow> Some (Inl e, t1 @ [Print (''Error reading UID: '' @ msg), Sleep 500]))"
  by (simp add: read_rfid_uid_caught truthy_def time_sleep_def unit_result_def split: option.splits)

lemma flaky_first_try:
  "read_rfid_uid_try flaky_env 0 [] =
     (Inl (PyException ''write failed''), [ResetInputBuffer 0, Write 0 READ_UID_COMMAND])"
  by (simp add: read_rfid_uid_try_def flaky_env_def calm_env_def io_defs)

lemma flaky_second_try:
  "read_rfid_uid flaky_env 0
     [ResetInputBuffer 0, Write 0 READ_UID_COMMAND, Print ''Error reading UID: write failed'',
      Sleep 500] =
   (Inr (Some ''DE AD BE EF''),
    [ResetInputBuffer 0, Write 0 READ_UID_COMMAND, Print ''Error reading UID: write failed'',
      Sleep 500, ResetInputBuffer 0, Write 0 READ_UID_COMMAND, Sleep 300, Read 0 64,
      Print ''Card type: MIFARE Classic 1K''])"
  by (simp add: read_rfid_uid_def read_rfid_uid_try_def flaky_env_def calm_env_def
      ser_reset_input_buffer_def ser_write_def ser_read_def time_sleep_def unit_result_def
      bind_io_def card_frame_parse)

lemma flaky_sleep: "time_sleep flaky_env ms t = (Inr (), t @ [Sleep ms])"
  by (simp add: time_sleep_def unit_result_def flaky_env_def calm_env_def)

lemma flaky_poll:
  "poll_loop (Suc (Suc 0)) flaky_env 0 [] =
     Some (Inr (),
       [ResetInputBuffer 0, Write 0 READ_UID_COMMAND, Print ''Error reading UID: write failed'',
        Sleep 500, ResetInputBuffer 0, Write 0 READ_UID_COMMAND, Sleep 300, Read 0 64,
        Print ''Card type: MIFARE Classic 1K'', Print ''Card detected! UID: DE AD BE EF'',
        Print ''Successfully read card. Exiting.''])"
proof -
  have first: "read_rfid_uid flaky_env 0 [] =
      (Inr None,
       [ResetInputBuffer 0, Write 0 READ_UID_COMMAND, Print ''Error reading UID: write failed''])"
    using read_rfid_uid_caught [OF flaky_first_try] by simp
  show ?thesis
    by (simp add: first flaky_sleep flaky_second_try truthy_def py_str_def bind_io_def print_def)
qed

text \<open>
  Against claim C6 as it is written. On \<open>flaky_env\<close> the first write of the poll raises.
  The loop does not end there: the error is printed, the loop sleeps its 500 ms, writes the
  command again, reads the card and ends normally.
\<close>

theorem poll_continues_after_error_counterexample:
  "env_write flaky_env [ResetInputBuffer 0] 0 READ_UID_COMMAND = Some (PyException ''write failed'') \<and>
   poll_loop (Suc (Suc 0)) flaky_env 0 [] =
     Some (Inr (),
       [ResetInputBuffer 0, Write 0 READ_UID_COMMAND, Print ''Error reading UID: write failed'',
        Sleep 500, ResetInputBuffer 0, Write 0 READ_UID_COMMAND, Sleep 300, Read 0 64,
        Print ''Card type: MIFARE Classic 1K'', Print ''Card detected! UID: DE AD BE EF'',
        Print ''Successfully read card. Exiting.''])"
proof (intro conjI)
  show "env_write flaky_env [ResetInputBuffer 0] 0 READ_UID_COMMAND =
      Some (PyException ''write failed'')"
    by (simp add: flaky_env_def calm_env_def)
qed (rule flaky_poll)

text \<open>How the loop can end: with a card read and its two lines printed, with a
  \<^verbatim>\<open>KeyboardInterrupt\<close>, or with an exception raised by the 500 ms sleep. An
  \<^verbatim>\<open>Exception\<close> raised by the port is never among the ways out.\<close>

lemma read_rfid_uid_raises_only_interrupt:
  "read_rfid_uid w ser t = (Inl e, t1) \<Longrightarrow> e = KeyboardInterrupt"
  using read_rfid_uid_no_exception [of w ser t] by (cases e) auto

lemma poll_loop_exits:
  "poll_loop n w ser t = Some (r, t') \<Longrightarrow>
     (\<exists>s t0. s \<noteq> [] \<and> r = Inr () \<and>
        t' = t0 @ [Print (''Card detected! UID: '' @ s), Print ''Successfully read card. Exiting.'']) \<or>
     r = Inl KeyboardInterrupt \<or>
     (\<exists>e t0. r = Inl e \<and> t' = t0 @ [Sleep 500] \<and> env_sleep w t0 500 = Some e)"
proof (induction n arbitrary: t)
  case 0
  then show ?case by simp
next
  case (Suc n)
  obtain res t1 where rd: "read_rfid_uid w ser t = (res, t1)"
    by (cases "read_rfid_uid w ser t")
  show ?case
  proof (cases res)
    case (Inl e)
    with rd have "e = KeyboardInterrupt"
      by (simp add: read_rfid_uid_raises_only_interrupt)
    with Suc.prems rd Inl show ?thesis by simp
  next
    case (Inr uid)
    show ?thesis
    proof (cases "truthy uid")
      case True
      then obtain s where "uid = Some s" "s \<noteq> []"
        by (auto simp add: truthy_def split: option.splits)
      with Suc.prems rd Inr True show ?thesis
        by (auto simp add: bind_io_def print_def py_str_def)
    next
      case False
      show ?thesis
      proof (cases "env_sleep w t1 500")
        case None
        with Suc.prems rd Inr False have "poll_loop n w ser (t1 @ [Sleep 500]) = Some (r, t')"
          by (simp add: time_sleep_def unit_result_def)
        then show ?thesis by (rule Suc.IH)
      next
        case (Some e)
        with Suc.prems rd Inr False show ?thesis
          by (auto simp add: time_sleep_def unit_result_def)
      qed
    qed
  qed
qed

text \<open>
  Claim C6, amended. A transport error (an \<^verbatim>\<open>Exception\<close> raised by the port during a
  poll) on the confirmed device is not fatal and does not reach the loop:
  \<^verbatim>\<open>read_rfid_uid\<close> catches it, prints ``Error reading UID: ...'' and returns
  \<^verbatim>\<open>None\<close>, which the loop takes for ``no card''; the loop sleeps its poll interval and,
  when that sleep returns, goes on with the next round. Whenever the loop ends, it ends
  with a card read (a UID that is not empty, and the two closing lines printed), with a
  \<^verbatim>\<open>KeyboardInterrupt\<close>, or with an exception raised by the 500 ms sleep itself.
\<close>

theorem poll_error_retried:
  assumes "read_rfid_uid_try w ser t = (Inl (PyException msg), t1)"
  shows "read_rfid_uid w ser t = (Inr None, t1 @ [Print (''Error reading UID: '' @ msg)]) \<and>
         \<not> truthy None \<and>
         poll_loop (Suc n) w ser t =
           (case env_sleep w (t1 @ [Print (''Error reading UID: '' @ msg)]) 500 of
              None \<Rightarrow> poll_loop n w ser (t1 @ [Print (''Error reading UID: '' @ msg), Sleep 500])
            | Some e \<Rightarrow> Some (Inl e, t1 @ [Print (''Error reading UID: '' @ msg), Sleep 500])) \<and>
         (poll_loop m w ser t2 = Some (r, t') \<longrightarrow>
            (\<exists>s t0. s \<noteq> [] \<and> r = Inr () \<and>
               t' = t0 @ [Print (''Card detected! UID: '' @ s),
                          Print ''Successfully read card. Exiting.'']) \<or>
            r = Inl KeyboardInterrupt \<or>
            (\<exists>e t0. r = Inl e \<and> t' = t0 @ [Sleep 500] \<and> env_sleep w t0 500 = Some e))"
proof -
  have "\<not> truthy None"
    by (simp add: truthy_def)
  with read_rfid_uid_caught [OF assms] poll_round_caught [OF assms, of n]
    poll_loop_exits [of m w ser t2 r t'] show ?thesis
    by blast
qed

theorem poll_error_retried_witness:
  "read_rfid_uid_try flaky_env 0 [] =
     (Inl (PyException ''write failed''), [ResetInputBuffer 0, Write 0 READ_UID_COMMAND]) \<and>
   read_rfid_uid flaky_env 0 [] =
     (Inr None,
      [ResetInputBuffer 0, Write 0 READ_UID_COMMAND, Print ''Error reading UID: write failed'']) \<and>
   poll_loop (Suc 0) flaky_env 0 [] = None \<and>
   poll_loop (Suc (Suc 0)) flaky_env 0 [] =
     Some (Inr (),
       [ResetInputBuffer 0, Write 0 READ_UID_COMMAND, Print ''Error reading UID: write failed'',
        Sleep 500, ResetInputBuffer 0, Write 0 READ_UID_COMMAND, Sleep 300, Read 0 64,
        Print ''Card type: MIFARE Classic 1K''] @
       [Print (''Card detected! UID: '' @ ''DE AD BE EF''),
        Print ''Successfully read card. Exiting.'']) \<and>
   ''DE AD BE EF'' \<noteq> []"
proof -
  have sleep: "env_sleep flaky_env t 500 = None" for t
    by (simp add: flaky_env_def calm_env_def)
  note inst = poll_error_retried [OF flaky_first_try, of 0 "Suc (Suc 0)" "[]" "Inr ()"
      "[ResetInputBuffer 0, Write 0 READ_UID_COMMAND, Print ''Error reading UID: write failed'',
        Sleep 500, ResetInputBuffer 0, Write 0 READ_UID_COMMAND, Sleep 300, Read 0 64,
        Print ''Card type: MIFARE Classic 1K'', Print ''Card detected! UID: DE AD BE EF'',
        Print ''Successfully read card. Exiting.'']"]
  from inst
  have "read_rfid_uid flaky_env 0 [] =
          (Inr None,
           [ResetInputBuffer 0, Write 0 READ_UID_COMMAND,
            Print ''Error reading UID: write failed'']) \<and>
        poll_loop (Suc 0) flaky_env 0 [] = None"
    by (simp del: poll_loop.simps(2) add: sleep)
  with flaky_first_try flaky_poll show ?thesis
    by (simp del: poll_loop.simps(2))
qed

text \<open>An exception raised by the poll-interval sleep does end the loop.\<close>

lemma poll_ends_when_sleep_raises:
  "poll_loop (Suc 0) ((calm_env [] [])\<lparr>env_sleep := (\<lambda>_ ms. if ms = 500 then Some (PyException ''boom'') else None)\<rparr>) 0 [] =
     Some (Inl (PyException ''boom''),
       [ResetInputBuffer 0, Write 0 READ_UID_COMMAND, Sleep 300, Read 0 64, Sleep 500])"
  by (simp add: read_rfid_uid_def read_rfid_uid_try_def calm_env_def io_defs
      read_rfid_uid_parse_short truthy_def)

text \<open>The whole program on that reader, started with the port as its argument: it ends
  normally after the second round and closes the port.\<close>

lemma main_flaky:
  "main (Suc (Suc 0)) flaky_env [''pn532_scan.py'', ''COM3''] [] =
     Some (Returned,
       [Print ''Trying to connect to specified port COM3...'', SerialOpen ''COM3'' 115200 1,
        Print ''Connected to COM3.'',
        Print (''Connected to PN532. Waiting for RFID tags...'' @ [CHR 0x0A]
                 @ ''Press Ctrl+C to exit.'' @ [CHR 0x0A]),
        Print ''Scanning for a card... (will exit after successful read)'',
        ResetInputBuffer 1, Write 1 READ_UID_COMMAND, Print ''Error reading UID: write failed'',
        Sleep 500, ResetInputBuffer 1, Write 1 READ_UID_COMMAND, Sleep 300, Read 1 64,
        Print ''Card type: MIFARE Classic 1K'', Print ''Card detected! UID: DE AD BE EF'',
        Print ''Successfully read card. Exiting.'', Close 1])"
  by (simp add: main_def main_open_arg_def main_poll_def read_rfid_uid_def read_rfid_uid_try_def
      flaky_env_def calm_env_def io_defs card_frame_parse truthy_def py_str_def)

lemma poll_round_empty_uid:
  assumes "20 \<le> length raw" and "raw ! 12 = 0" and "always_answers w ser raw"
  shows "poll_loop (Suc n) w ser t =
     poll_loop n w ser (t @ [ResetInputBuffer ser, Write ser READ_UID_COMMAND, Sleep 300, Read ser 64,
        Print (''Card type: '' @ get_card_type (uint (raw ! 11)) 0), Sleep 500])"
  using assms
  by (simp add: read_rfid_uid_received read_rfid_uid_parse_long truthy_def time_sleep_def
      unit_result_def always_answers_def)

lemma poll_empty_uid_forever:
  assumes "20 \<le> length raw" and "raw ! 12 = 0" and "always_answers w ser raw"
  shows "poll_loop n w ser t = None"
proof (induction n arbitrary: t)
  case 0
  show ?case by simp
next
  case (Suc n)
  show ?case
    by (simp only: poll_round_empty_uid [OF assms] Suc.IH)
qed

lemma calm_env_always_answers: "always_answers (calm_env ports raw) ser raw"
  by (simp add: always_answers_def calm_env_def)

text \<open>
  Claim C9. A response of 20 bytes or more whose byte at offset 12 is 0 makes
  \<^verbatim>\<open>read_rfid_uid\<close> return the empty string. The loop's test takes the empty string for
  false, as it takes \<^verbatim>\<open>None\<close>: the round ends in the 500 ms sleep and the next round
  starts. On a reader that answers every poll with such a response the loop is still
  running after any number of rounds.
\<close>

theorem zero_length_uid_keeps_polling:
  assumes "20 \<le> length raw" and "raw ! 12 = 0" and "always_answers w ser raw"
  shows "read_rfid_uid_parse raw t =
           (Inr (Some []), t @ [Print (''Card type: '' @ get_card_type (uint (raw ! 11)) 0)]) \<and>
         read_rfid_uid w ser t =
           (Inr (Some []),
            t @ [ResetInputBuffer ser, Write ser READ_UID_COMMAND, Sleep 300, Read ser 64,
                 Print (''Card type: '' @ get_card_type (uint (raw ! 11)) 0)]) \<and>
         \<not> truthy (Some []) \<and>
         poll_loop (Suc n) w ser t =
           poll_loop n w ser
             (t @ [ResetInputBuffer ser, Write ser READ_UID_COMMAND, Sleep 300, Read ser 64,
                   Print (''Card type: '' @ get_card_type (uint (raw ! 11)) 0), Sleep 500]) \<and>
         poll_loop n w ser t = None"
  using assms
  by (simp add: read_rfid_uid_received read_rfid_uid_parse_long truthy_def
      poll_round_empty_uid [OF assms] poll_empty_uid_forever [OF assms])

theorem zero_length_uid_keeps_polling_witness:
  "20 \<le> length empty_uid_frame \<and> empty_uid_frame ! 12 = 0 \<and>
   always_answers (calm_env [] empty_uid_frame) 0 empty_uid_frame \<and>
   read_rfid_uid (calm_env [] empty_uid_frame) 0 [] =
     (Inr (Some []),
      [ResetInputBuffer 0, Write 0 READ_UID_COMMAND, Sleep 300, Read 0 64,
       Print ''Card type: MIFARE Ultralight/NTAG'']) \<and>
   poll_loop 3 (calm_env [] empty_uid_frame) 0 [] = None"
  using zero_length_uid_keeps_polling [of empty_uid_frame "calm_env [] empty_uid_frame" 0 "[]" 3]
  by (simp add: empty_uid_frame_def calm_env_always_answers get_card_type_def)

end
